theory Spec2Isabelle
  imports Main "HOL-Library.Sublist"
begin

section \<open>Event notifier: a shallow embedding of \<open>main.py\<close>\<close>

text \<open>
  The program fetches a configured web page, looks for configured keywords in its text and
  sends an e-mail when one is found. The embedding follows \<open>main.py\<close> function by function.
  Everything outside the process (environment variables, the file \<open>config.json\<close>, the HTTP
  client, the HTML parser, the SMTP relay, the clock) is a field of a \<open>world\<close> record that
  the functions read and return updated. Exceptions are values of type \<open>exn\<close>; a function
  that can raise returns \<open>exn + 'a\<close>. Calls to \<open>logger\<close> have no effect that a caller can
  observe and are left out.
\<close>

subsection \<open>Python strings\<close>

text \<open>
  A Python \<open>str\<close> is modelled as a \<open>string\<close> whose characters are the code points 0 to 255.
  On these, \<open>str.lower\<close> works character by character and \<open>str.strip\<close> removes the
  characters for which \<open>str.isspace\<close> holds: 9 to 13, 28 to 32, 133 and 160.
\<close>

definition isspace :: "char \<Rightarrow> bool" where
  "isspace c = (let n = (of_char c :: nat) in
     (9 \<le> n \<and> n \<le> 13) \<or> (28 \<le> n \<and> n \<le> 32) \<or> n = 133 \<or> n = 160)"

definition lower_char :: "char \<Rightarrow> char" where
  "lower_char c = (let n = (of_char c :: nat) in
     if (65 \<le> n \<and> n \<le> 90) \<or> (192 \<le> n \<and> n \<le> 222 \<and> n \<noteq> 215)
     then char_of (n + 32) else c)"

definition lower :: "string \<Rightarrow> string" where
  "lower s = map lower_char s"

definition strip :: "string \<Rightarrow> string" where
  "strip s = rev (dropWhile isspace (rev (dropWhile isspace s)))"

text \<open>\<open>sub in s\<close> on strings: \<open>sub\<close> occurs in \<open>s\<close> as a contiguous run of characters.\<close>

fun py_in :: "string \<Rightarrow> string \<Rightarrow> bool" where
  "py_in sub [] = (sub = [])"
| "py_in sub (c # cs) = (prefix sub (c # cs) \<or> py_in sub cs)"

text \<open>\<open>sep.join(parts)\<close>.\<close>

fun join :: "string \<Rightarrow> string list \<Rightarrow> string" where
  "join sep [] = []"
| "join sep [p] = p"
| "join sep (p # q # ps) = p @ sep @ join sep (q # ps)"

text \<open>
  \<open>s.split(',')\<close>: the pieces of \<open>s\<close> between the commas; \<open>cur\<close> holds the piece being
  read, reversed.
\<close>

fun split_comma_from :: "string \<Rightarrow> string \<Rightarrow> string list" where
  "split_comma_from cur [] = [rev cur]"
| "split_comma_from cur (c # cs) =
     (if c = CHR '','' then rev cur # split_comma_from [] cs
      else split_comma_from (c # cur) cs)"

definition split_comma :: "string \<Rightarrow> string list" where
  "split_comma s = split_comma_from [] s"

text \<open>
  The comprehension \<open>[kw.strip() for kw in s.split(',') if kw.strip()]\<close>, which the source
  writes out three times (lines 46, 153 and 204).
\<close>

definition keyword_list :: "string \<Rightarrow> string list" where
  "keyword_list s = map strip (filter (\<lambda>kw. strip kw \<noteq> []) (split_comma s))"

subsection \<open>\<open>check_keywords\<close> (lines 94 to 103)\<close>

text \<open>The \<open>for\<close> loop, with the list \<open>found_keywords\<close> it appends to as an argument.\<close>

fun check_keywords_loop :: "string \<Rightarrow> string list \<Rightarrow> string list \<Rightarrow> string list" where
  "check_keywords_loop text_lower [] found_keywords = found_keywords"
| "check_keywords_loop text_lower (keyword # keywords) found_keywords =
     (if strip keyword \<noteq> [] \<and> py_in (lower (strip keyword)) text_lower
      then check_keywords_loop text_lower keywords (found_keywords @ [strip keyword])
      else check_keywords_loop text_lower keywords found_keywords)"

definition check_keywords :: "string \<Rightarrow> string list \<Rightarrow> string list" where
  "check_keywords page keywords = check_keywords_loop (lower page) keywords []"

subsection \<open>Values, exceptions and the world\<close>

text \<open>
  The values kept in the configuration dictionary: a string or a list of strings. The
  program itself writes nothing else to \<open>config.json\<close>; a file edited by hand may swap the
  two or leave a key out, and the model covers that. Other JSON values are outside it.
\<close>

datatype pyval = Str string | StrList "string list"

type_synonym pydict = "string \<rightharpoonup> pyval"

text \<open>Truth value of a Python object in a condition: empty strings and lists are false.\<close>

fun truthy :: "pyval \<Rightarrow> bool" where
  "truthy (Str s) = (s \<noteq> [])"
| "truthy (StrList xs) = (xs \<noteq> [])"

text \<open>\<open>a or b\<close>.\<close>

definition py_or :: "pyval \<Rightarrow> pyval \<Rightarrow> pyval" where
  "py_or a b = (if truthy a then a else b)"

text \<open>
  Exceptions, all subclasses of \<open>Exception\<close>. \<open>OtherException cls msg\<close> stands for what the
  libraries raise (\<open>OSError\<close>, \<open>JSONDecodeError\<close>, the exceptions of \<open>requests\<close> and
  \<open>smtplib\<close>); \<open>str_exn\<close> is \<open>str(e)\<close>.
\<close>

datatype exn =
    FileNotFoundError string
  | KeyError string
  | AttributeError string
  | OtherException string string

definition quoted :: "string \<Rightarrow> string" where
  "quoted s = CHR 0x27 # s @ [CHR 0x27]"

fun str_exn :: "exn \<Rightarrow> string" where
  "str_exn (FileNotFoundError msg) = msg"
| "str_exn (KeyError k) = quoted k"
| "str_exn (AttributeError msg) = msg"
| "str_exn (OtherException cls msg) = msg"

text \<open>\<open>d[k]\<close> and \<open>d.get(k, default)\<close>.\<close>

definition item :: "pydict \<Rightarrow> string \<Rightarrow> exn + pyval" where
  "item d k = (case d k of None \<Rightarrow> Inl (KeyError k) | Some v \<Rightarrow> Inr v)"

definition dict_get :: "pydict \<Rightarrow> string \<Rightarrow> pyval \<Rightarrow> pyval" where
  "dict_get d k dflt = (case d k of None \<Rightarrow> dflt | Some v \<Rightarrow> v)"

text \<open>The message built in \<open>send_email\<close>: its three headers and its plain-text part.\<close>

record email =
  mail_from :: pyval
  mail_to :: pyval
  mail_subject :: string
  mail_body :: string

record http_response =
  status_code :: nat
  content :: string

text \<open>
  The calls of \<open>main.py\<close>'s own functions, recorded in the order they are entered. The
  record is not program state: it is there so that a theorem can say that a function was,
  or was not, called.
\<close>

datatype call =
    Enter_perform_check
  | Enter_scrape_webpage string
  | Enter_check_keywords string "string list"
  | Enter_send_email

text \<open>
  The world outside the process.
  \<^item> \<open>environ\<close>: \<open>os.environ\<close>.
  \<^item> \<open>config_file\<close>: what opening \<open>config.json\<close> for reading and \<open>json.load\<close> give: the
    stored dictionary, or the exception raised (\<open>FileNotFoundError\<close> when there is no file).
  \<^item> \<open>write_error\<close>: the exception that opening \<open>config.json\<close> for writing raises, if any.
  \<^item> \<open>http_get\<close>: \<open>requests.get(url, headers=headers, timeout=30)\<close>.
  \<^item> \<open>soup_text\<close>: the HTML parser, from the response's content to \<open>soup.get_text()\<close> after
    the \<open>script\<close> and \<open>style\<close> elements are removed.
  \<^item> \<open>mime_build\<close>: the exception that building the message raises, if any (lines 111
    to 116: \<open>MIMEMultipart()\<close>, the three headers, \<open>MIMEText(body, 'plain')\<close>, \<open>attach\<close>).
  \<^item> \<open>mime_as_string\<close>: \<open>msg.as_string()\<close> of line 123, the text given to the relay or the
    exception raised (a header with an embedded line feed makes it raise).
  \<^item> \<open>smtp_connect\<close>, \<open>smtp_starttls\<close>, \<open>smtp_login\<close>, \<open>smtp_sendmail\<close>, \<open>smtp_quit\<close>: the
    exception each step of the SMTP session raises, if any.
  \<^item> \<open>now\<close>: \<open>datetime.now().strftime('%Y-%m-%d %H:%M:%S')\<close>.
  \<^item> \<open>outbox\<close>: what the relay has accepted: sender, receiver and text of each message.
  \<^item> \<open>trace\<close>: the calls entered so far.
\<close>

record world =
  environ :: "string \<rightharpoonup> string"
  config_file :: "exn + pydict"
  write_error :: "exn option"
  http_get :: "string \<Rightarrow> exn + http_response"
  soup_text :: "string \<Rightarrow> exn + string"
  mime_build :: "email \<Rightarrow> exn option"
  mime_as_string :: "email \<Rightarrow> exn + string"
  smtp_connect :: "exn option"
  smtp_starttls :: "exn option"
  smtp_login :: "pyval \<Rightarrow> pyval \<Rightarrow> exn option"
  smtp_sendmail :: "pyval \<Rightarrow> pyval \<Rightarrow> string \<Rightarrow> exn option"
  smtp_quit :: "exn option"
  now :: string
  outbox :: "(pyval \<times> pyval \<times> string) list"
  trace :: "call list"

definition enter :: "call \<Rightarrow> world \<Rightarrow> world" where
  "enter c w = w\<lparr>trace := trace w @ [c]\<rparr>"

text \<open>\<open>os.environ.get(k, default)\<close>.\<close>

definition environ_get :: "world \<Rightarrow> string \<Rightarrow> string \<Rightarrow> string" where
  "environ_get w k dflt = (case environ w k of None \<Rightarrow> dflt | Some v \<Rightarrow> v)"

subsection \<open>\<open>save_config\<close> (lines 55 to 63) and \<open>load_config\<close> (lines 28 to 53)\<close>

definition safe_config :: "pydict \<Rightarrow> pydict" where
  "safe_config config =
     [''url'' \<mapsto> dict_get config ''url'' (Str []),
      ''keywords'' \<mapsto> dict_get config ''keywords'' (StrList [])]"

definition save_config :: "world \<Rightarrow> pydict \<Rightarrow> (exn + unit) \<times> world" where
  "save_config w config =
     (case write_error w of
        Some e \<Rightarrow> (Inl e, w)
      | None \<Rightarrow> (Inr (), w\<lparr>config_file := Inr (safe_config config)\<rparr>))"

text \<open>Lines 41 to 53: the defaults and the secrets, from the environment.\<close>

definition merge_environ :: "world \<Rightarrow> pydict \<Rightarrow> pydict" where
  "merge_environ w config =
     (let config1 = config(''url'' \<mapsto>
            py_or (dict_get config ''url'' (Str [])) (Str (environ_get w ''DEFAULT_URL'' [])));
          keywords_env = environ_get w ''DEFAULT_KEYWORDS'' [];
          config2 =
            (if \<not> (case config1 ''keywords'' of None \<Rightarrow> False | Some v \<Rightarrow> truthy v)
                \<and> keywords_env \<noteq> []
             then config1(''keywords'' \<mapsto> StrList (keyword_list keywords_env))
             else config1)
      in config2(''sender_email'' \<mapsto> Str (environ_get w ''SENDER_EMAIL'' []),
                 ''sender_password'' \<mapsto> Str (environ_get w ''SENDER_EMAIL_PASSWORD'' []),
                 ''receiver_email'' \<mapsto> Str (environ_get w ''RECEIVER_EMAIL'' [])))"

definition default_config :: pydict where
  "default_config = [''url'' \<mapsto> Str [], ''keywords'' \<mapsto> StrList []]"

definition load_config :: "world \<Rightarrow> (exn + pydict) \<times> world" where
  "load_config w =
     (case config_file w of
        Inr config \<Rightarrow> (Inr (merge_environ w config), w)
      | Inl (FileNotFoundError msg) \<Rightarrow>
          (case save_config w default_config of
             (Inl e, w') \<Rightarrow> (Inl e, w')
           | (Inr u, w') \<Rightarrow> (Inr (merge_environ w' default_config), w'))
      | Inl e \<Rightarrow> (Inl e, w))"

subsection \<open>\<open>scrape_webpage\<close> (lines 65 to 92)\<close>

text \<open>
  \<open>str.splitlines\<close> on code points below 256: a line ends at LF, CR, CR LF, VT, FF, FS, GS,
  RS or NEL, and no empty line follows a final line end.
\<close>

definition linebreak :: "char \<Rightarrow> bool" where
  "linebreak c = (let n = (of_char c :: nat) in
     (10 \<le> n \<and> n \<le> 13) \<or> (28 \<le> n \<and> n \<le> 30) \<or> n = 133)"

fun splitlines_from :: "string \<Rightarrow> string \<Rightarrow> string list" where
  "splitlines_from cur [] = (if cur = [] then [] else [rev cur])"
| "splitlines_from cur [c] = (if linebreak c then [rev cur] else [rev (c # cur)])"
| "splitlines_from cur (c # d # cs) =
     (if c = CHR 0x0D \<and> d = CHR 0x0A then rev cur # splitlines_from [] cs
      else if linebreak c then rev cur # splitlines_from [] (d # cs)
      else splitlines_from (c # cur) (d # cs))"

definition splitlines :: "string \<Rightarrow> string list" where
  "splitlines s = splitlines_from [] s"

text \<open>\<open>line.split("  ")\<close>: the pieces between non-overlapping pairs of spaces, left to right.\<close>

fun split_spaces_from :: "string \<Rightarrow> string \<Rightarrow> string list" where
  "split_spaces_from cur [] = [rev cur]"
| "split_spaces_from cur [c] = [rev (c # cur)]"
| "split_spaces_from cur (c # d # cs) =
     (if c = CHR '' '' \<and> d = CHR '' '' then rev cur # split_spaces_from [] cs
      else split_spaces_from (c # cur) (d # cs))"

definition split_spaces :: "string \<Rightarrow> string list" where
  "split_spaces s = split_spaces_from [] s"

text \<open>Lines 84 to 86.\<close>

definition clean_whitespace :: "string \<Rightarrow> string" where
  "clean_whitespace page =
     (let lines = map strip (splitlines page);
          chunks = map strip (concat (map split_spaces lines))
      in join '' '' (filter (\<lambda>chunk. chunk \<noteq> []) chunks))"

text \<open>\<open>response.raise_for_status()\<close> raises for the status codes 400 to 599.\<close>

definition raise_for_status :: "http_response \<Rightarrow> exn + unit" where
  "raise_for_status response =
     (if 400 \<le> status_code response \<and> status_code response < 600
      then Inl (OtherException ''HTTPError'' ''error status'') else Inr ())"

text \<open>The body of the \<open>try\<close>.\<close>

definition scrape_webpage_try :: "world \<Rightarrow> string \<Rightarrow> exn + string" where
  "scrape_webpage_try w url =
     (case http_get w url of
        Inl e \<Rightarrow> Inl e
      | Inr response \<Rightarrow>
          (case raise_for_status response of
             Inl e \<Rightarrow> Inl e
           | Inr u \<Rightarrow>
               (case soup_text w (content response) of
                  Inl e \<Rightarrow> Inl e
                | Inr page \<Rightarrow> Inr (clean_whitespace page))))"

text \<open>\<open>None\<close> is Python's \<open>None\<close>, returned by the \<open>except\<close> clause.\<close>

definition scrape_webpage :: "world \<Rightarrow> string \<Rightarrow> (exn + string option) \<times> world" where
  "scrape_webpage w url =
     (case scrape_webpage_try w url of
        Inl e \<Rightarrow> (Inr None, enter (Enter_scrape_webpage url) w)
      | Inr page \<Rightarrow> (Inr (Some page), enter (Enter_scrape_webpage url) w))"

subsection \<open>\<open>send_email\<close> (lines 105 to 131)\<close>

text \<open>
  The body of the \<open>try\<close>, statement by statement: build the message (lines 111 to 116),
  connect, upgrade to TLS, log in, turn the message into text (line 123), send, quit. Each
  of them can raise. The relay has the text once \<open>sendmail\<close> returns.
\<close>

definition send_email_try ::
  "world \<Rightarrow> pyval \<Rightarrow> pyval \<Rightarrow> pyval \<Rightarrow> string \<Rightarrow> string \<Rightarrow> (exn + unit) \<times> world" where
  "send_email_try w sender_email sender_password receiver_email subject body =
     (let msg = \<lparr>mail_from = sender_email, mail_to = receiver_email,
                  mail_subject = subject, mail_body = body\<rparr>
      in case mime_build w msg of
           Some e \<Rightarrow> (Inl e, w)
         | None \<Rightarrow>
        (case smtp_connect w of
           Some e \<Rightarrow> (Inl e, w)
         | None \<Rightarrow>
        (case smtp_starttls w of
           Some e \<Rightarrow> (Inl e, w)
         | None \<Rightarrow>
        (case smtp_login w sender_email sender_password of
           Some e \<Rightarrow> (Inl e, w)
         | None \<Rightarrow>
        (case mime_as_string w msg of
           Inl e \<Rightarrow> (Inl e, w)
         | Inr text \<Rightarrow>
        (case smtp_sendmail w sender_email receiver_email text of
           Some e \<Rightarrow> (Inl e, w)
         | None \<Rightarrow>
        (case smtp_quit w of
           Some e \<Rightarrow> (Inl e, w\<lparr>outbox := outbox w @ [(sender_email, receiver_email, text)]\<rparr>)
         | None \<Rightarrow>
             (Inr (), w\<lparr>outbox := outbox w @ [(sender_email, receiver_email, text)]\<rparr>))))))))"

definition send_email ::
  "world \<Rightarrow> pyval \<Rightarrow> pyval \<Rightarrow> pyval \<Rightarrow> string \<Rightarrow> string \<Rightarrow> (exn + bool) \<times> world" where
  "send_email w sender_email sender_password receiver_email subject body =
     (case send_email_try (enter Enter_send_email w)
             sender_email sender_password receiver_email subject body of
        (Inl e, w') \<Rightarrow> (Inr False, w')
      | (Inr u, w') \<Rightarrow> (Inr True, w'))"

subsection \<open>The request and the JSON responses\<close>

text \<open>
  \<open>flask.request\<close>: the form fields, the headers and the query arguments, each read with
  \<open>.get\<close>; a header is found under its canonical name. Both routes that reach \<open>_perform_check\<close> accept \<open>POST\<close> only, so
  \<open>request.method == 'POST'\<close> holds there and the \<open>else\<close> branch of line 205 is never taken;
  the model has the \<open>POST\<close> branch only.
\<close>

record request =
  form :: "string \<rightharpoonup> string"
  headers :: "string \<rightharpoonup> string"
  args :: "string \<rightharpoonup> string"

text \<open>
  The dictionary given to \<open>jsonify\<close> by \<open>check\<close> and \<open>_perform_check\<close>. The key
  \<open>found_keywords\<close> is \<open>None\<close> when the dictionary has no such key.
\<close>

record check_result =
  status_tag :: string
  message :: string
  found_keywords :: "string list option"

definition error_result :: "string \<Rightarrow> check_result" where
  "error_result msg = \<lparr>status_tag = ''error'', message = msg, found_keywords = None\<rparr>"

subsection \<open>\<open>_perform_check\<close> (lines 195 to 288)\<close>

text \<open>
  Line 203: \<open>request.form.get('url', config['url']).strip()\<close>. The default is evaluated
  before \<open>get\<close> is called; \<open>strip\<close> exists on strings only.
\<close>

definition effective_url :: "request \<Rightarrow> pydict \<Rightarrow> exn + string" where
  "effective_url req config =
     (case item config ''url'' of
        Inl e \<Rightarrow> Inl e
      | Inr dflt \<Rightarrow>
          (case form req ''url'' of
             Some v \<Rightarrow> Inr (strip v)
           | None \<Rightarrow>
               (case dflt of
                  Str u \<Rightarrow> Inr (strip u)
                | StrList xs \<Rightarrow>
                    Inl (AttributeError
                      (quoted ''list'' @ '' object has no attribute '' @ quoted ''strip'')))))"

text \<open>Iterating over a value: a list gives its entries, a string its characters.\<close>

fun iterate :: "pyval \<Rightarrow> string list" where
  "iterate (StrList xs) = xs"
| "iterate (Str s) = map (\<lambda>c. [c]) s"

text \<open>Line 204; the default \<open>','.join(config['keywords'])\<close> is evaluated first here too.\<close>

definition effective_keywords :: "request \<Rightarrow> pydict \<Rightarrow> exn + string list" where
  "effective_keywords req config =
     (case item config ''keywords'' of
        Inl e \<Rightarrow> Inl e
      | Inr kws \<Rightarrow>
          Inr (keyword_list
                (case form req ''keywords'' of
                   Some v \<Rightarrow> v
                 | None \<Rightarrow> join '','' (iterate kws))))"

text \<open>Lines 199 to 207: the configuration, the url and the keywords of this check.\<close>

definition resolve_request ::
  "world \<Rightarrow> request \<Rightarrow> (exn + pydict \<times> string \<times> string list) \<times> world" where
  "resolve_request w req =
     (case load_config w of
        (Inl e, w1) \<Rightarrow> (Inl e, w1)
      | (Inr config, w1) \<Rightarrow>
          (case effective_url req config of
             Inl e \<Rightarrow> (Inl e, w1)
           | Inr url \<Rightarrow>
               (case effective_keywords req config of
                  Inl e \<Rightarrow> (Inl e, w1)
                | Inr keywords \<Rightarrow> (Inr (config, url, keywords), w1))))"

text \<open>\<open>config['sender_email']\<close>, \<open>config['sender_password']\<close>, \<open>config['receiver_email']\<close>.\<close>

definition secrets :: "pydict \<Rightarrow> exn + pyval \<times> pyval \<times> pyval" where
  "secrets config =
     (case item config ''sender_email'' of
        Inl e \<Rightarrow> Inl e
      | Inr sender \<Rightarrow>
          (case item config ''sender_password'' of
             Inl e \<Rightarrow> Inl e
           | Inr password \<Rightarrow>
               (case item config ''receiver_email'' of
                  Inl e \<Rightarrow> Inl e
                | Inr receiver \<Rightarrow> Inr (sender, password, receiver))))"

text \<open>
  Lines 209 to 223: \<open>Some r\<close> when the check ends here with the result \<open>r\<close>, \<open>None\<close> when
  the configuration is complete.
\<close>

definition validate_config ::
  "pydict \<Rightarrow> string \<Rightarrow> string list \<Rightarrow> exn + check_result option" where
  "validate_config config url keywords =
     (if url = [] then Inr (Some (error_result ''No URL configured''))
      else if keywords = [] then Inr (Some (error_result ''No keywords configured''))
      else
        (case secrets config of
           Inl e \<Rightarrow> Inl e
         | Inr (sender, password, receiver) \<Rightarrow>
             if \<not> (truthy sender \<and> truthy password \<and> truthy receiver)
             then Inr (Some (error_result
                    ''Email configuration incomplete - check your secrets''))
             else Inr None))"

definition newline :: string where
  "newline = [CHR 0x0A]"

definition email_subject :: "string \<Rightarrow> string" where
  "email_subject url = ''Local Event Notifier: Keywords Found on '' @ url"

definition email_body :: "string \<Rightarrow> string list \<Rightarrow> string list \<Rightarrow> string \<Rightarrow> string" where
  "email_body url found keywords time =
     ''Local Event Notifier Alert'' @ newline @ newline
     @ ''The following keywords were found on '' @ url @ '':'' @ newline
     @ join '', '' found @ newline @ newline
     @ ''Keywords searched: '' @ join '', '' keywords @ newline @ newline
     @ ''Time: '' @ time @ newline @ newline
     @ ''This is an automated message from your Local Event Notifier Agent.'' @ newline"

text \<open>Lines 232 to 283, entered with the text of the page.\<close>

definition match_and_notify ::
  "world \<Rightarrow> pydict \<Rightarrow> string \<Rightarrow> string list \<Rightarrow> string \<Rightarrow> (exn + check_result) \<times> world" where
  "match_and_notify w config url keywords page =
     (let w1 = enter (Enter_check_keywords page keywords) w;
          found = check_keywords page keywords
      in if found \<noteq> [] then
           (case secrets config of
              Inl e \<Rightarrow> (Inl e, w1)
            | Inr (sender, password, receiver) \<Rightarrow>
                (case send_email w1 sender password receiver
                        (email_subject url) (email_body url found keywords (now w1)) of
                   (Inl e, w2) \<Rightarrow> (Inl e, w2)
                 | (Inr email_sent, w2) \<Rightarrow>
                     if email_sent then
                       (Inr \<lparr>status_tag = ''success'',
                             message = ''Keywords found and email sent: '' @ join '', '' found,
                             found_keywords = Some found\<rparr>, w2)
                     else
                       (Inr \<lparr>status_tag = ''warning'',
                             message = ''Keywords found but email failed: '' @ join '', '' found,
                             found_keywords = Some found\<rparr>, w2)))
         else
           (Inr \<lparr>status_tag = ''info'', message = ''No keywords found on the webpage'',
                 found_keywords = Some []\<rparr>, w1))"

text \<open>The body of the \<open>try\<close>.\<close>

definition perform_check_try :: "world \<Rightarrow> request \<Rightarrow> (exn + check_result) \<times> world" where
  "perform_check_try w req =
     (case resolve_request w req of
        (Inl e, w1) \<Rightarrow> (Inl e, w1)
      | (Inr (config, url, keywords), w1) \<Rightarrow>
          (case validate_config config url keywords of
             Inl e \<Rightarrow> (Inl e, w1)
           | Inr (Some r) \<Rightarrow> (Inr r, w1)
           | Inr None \<Rightarrow>
               (case scrape_webpage w1 url of
                  (Inl e, w2) \<Rightarrow> (Inl e, w2)
                | (Inr None, w2) \<Rightarrow>
                    (Inr (error_result (''Failed to scrape webpage: '' @ url)), w2)
                | (Inr (Some page), w2) \<Rightarrow> match_and_notify w2 config url keywords page)))"

definition perform_check :: "world \<Rightarrow> request \<Rightarrow> (exn + check_result) \<times> world" where
  "perform_check w req =
     (case perform_check_try (enter Enter_perform_check w) req of
        (Inl e, w') \<Rightarrow> (Inr (error_result (''Error during check: '' @ str_exn e)), w')
      | (Inr r, w') \<Rightarrow> (Inr r, w'))"

subsection \<open>\<open>check\<close> (lines 166 to 181)\<close>

text \<open>A view's return value: the HTTP status code and the JSON body.\<close>

type_synonym reply = "nat \<times> check_result"

text \<open>Line 175: \<open>request.headers.get('X-Check-Token') or request.args.get('token')\<close>.\<close>

definition provided_token :: "request \<Rightarrow> string option" where
  "provided_token req =
     (case headers req ''X-Check-Token'' of
        Some h \<Rightarrow> if h \<noteq> [] then Some h else args req ''token''
      | None \<Rightarrow> args req ''token'')"

text \<open>\<open>not x\<close> for a value that is a string or \<open>None\<close>.\<close>

definition falsy :: "string option \<Rightarrow> bool" where
  "falsy x = (case x of None \<Rightarrow> True | Some s \<Rightarrow> s = [])"

definition check :: "world \<Rightarrow> request \<Rightarrow> (exn + reply) \<times> world" where
  "check w req =
     (let check_token = environ w ''CHECK_TOKEN'' in
      if falsy check_token
      then (Inr (500, error_result ''CHECK_TOKEN not configured''), w)
      else if falsy (provided_token req) \<or> provided_token req \<noteq> check_token
      then (Inr (401, error_result ''Unauthorized - invalid or missing token''), w)
      else
        (case perform_check w req of
           (Inl e, w') \<Rightarrow> (Inl e, w')
         | (Inr r, w') \<Rightarrow> (Inr (200, r), w')))"

subsection \<open>\<open>status\<close> (lines 290 to 304)\<close>

text \<open>The dictionary given to \<open>jsonify\<close>, its inner dictionary \<open>config\<close> flattened.\<close>

record status_report =
  url_configured :: bool
  keywords_configured :: bool
  email_configured :: bool
  config_url :: pyval
  config_keywords :: pyval
  config_sender_email :: pyval
  config_receiver_email :: pyval

definition status :: "world \<Rightarrow> (exn + status_report) \<times> world" where
  "status w =
     (case load_config w of
        (Inl e, w1) \<Rightarrow> (Inl e, w1)
      | (Inr config, w1) \<Rightarrow>
          (case item config ''url'' of
             Inl e \<Rightarrow> (Inl e, w1)
           | Inr u \<Rightarrow>
          (case item config ''keywords'' of
             Inl e \<Rightarrow> (Inl e, w1)
           | Inr kws \<Rightarrow>
          (case secrets config of
             Inl e \<Rightarrow> (Inl e, w1)
           | Inr (sender, password, receiver) \<Rightarrow>
               (Inr \<lparr>url_configured = truthy u,
                     keywords_configured = truthy kws,
                     email_configured = (truthy sender \<and> truthy password \<and> truthy receiver),
                     config_url = u,
                     config_keywords = kws,
                     config_sender_email =
                       (if truthy sender then sender else Str ''Not configured''),
                     config_receiver_email =
                       (if truthy receiver then receiver else Str ''Not configured'')\<rparr>,
                w1)))))"

subsection \<open>Example worlds\<close>

text \<open>
  The scenario of the specification: the page at \<open>https://example.com\<close> reads
  \<open>Big Sale Today\<close>, the keywords are \<open>sale\<close> and \<open>event\<close>, the mail settings are complete
  and the relay accepts the message. The other worlds change one thing each.
\<close>

definition example_environ :: "string \<rightharpoonup> string" where
  "example_environ =
     [''SENDER_EMAIL'' \<mapsto> ''me@example.com'',
      ''SENDER_EMAIL_PASSWORD'' \<mapsto> ''hunter2'',
      ''RECEIVER_EMAIL'' \<mapsto> ''you@example.com'',
      ''CHECK_TOKEN'' \<mapsto> ''t0ken'']"

definition example_config :: pydict where
  "example_config =
     [''url'' \<mapsto> Str ''https://example.com'',
      ''keywords'' \<mapsto> StrList [''sale'', ''event'']]"

text \<open>
  A stand-in for \<open>msg.as_string()\<close>: it refuses a subject that holds a line feed, as the
  library refuses a header with an embedded header line, and otherwise gives the subject
  line, an empty line and the body.
\<close>

definition example_as_string :: "email \<Rightarrow> exn + string" where
  "example_as_string msg =
     (if CHR 0x0A \<in> set (mail_subject msg)
      then Inl (OtherException ''HeaderParseError''
                  ''header value appears to contain an embedded header'')
      else Inr (''Subject: '' @ mail_subject msg @ newline @ newline @ mail_body msg))"

definition example_world :: world where
  "example_world =
     \<lparr>environ = example_environ,
      config_file = Inr example_config,
      write_error = None,
      http_get = (\<lambda>url. Inr \<lparr>status_code = 200, content = ''<p>Big Sale Today</p>''\<rparr>),
      soup_text = (\<lambda>html. Inr ''Big Sale Today''),
      mime_build = (\<lambda>msg. None),
      mime_as_string = example_as_string,
      smtp_connect = None,
      smtp_starttls = None,
      smtp_login = (\<lambda>sender password. None),
      smtp_sendmail = (\<lambda>sender receiver text. None),
      smtp_quit = None,
      now = ''2025-01-01 12:00:00'',
      outbox = [],
      trace = []\<rparr>"

definition example_request :: request where
  "example_request = \<lparr>form = Map.empty, headers = Map.empty, args = Map.empty\<rparr>"

definition smtp_rejects :: "pyval \<Rightarrow> pyval \<Rightarrow> exn option" where
  "smtp_rejects sender password =
     Some (OtherException ''SMTPAuthenticationError'' ''Username and Password not accepted'')"

definition world_mail_down :: world where
  "world_mail_down = example_world\<lparr>smtp_login := smtp_rejects\<rparr>"

definition stored_no_url :: pydict where
  "stored_no_url = [''url'' \<mapsto> Str [], ''keywords'' \<mapsto> StrList [''sale'']]"

definition world_no_url :: world where
  "world_no_url = example_world\<lparr>config_file := Inr stored_no_url\<rparr>"

definition world_fetch_fails :: world where
  "world_fetch_fails =
     example_world\<lparr>http_get := (\<lambda>url. Inl (OtherException ''ConnectionError'' ''unreachable''))\<rparr>"

definition world_empty_page :: world where
  "world_empty_page =
     example_world\<lparr>http_get := (\<lambda>url. Inr \<lparr>status_code = 200, content = []\<rparr>),
                   soup_text := (\<lambda>html. Inr [])\<rparr>"

definition world_no_token :: world where
  "world_no_token = example_world\<lparr>environ := Map.empty\<rparr>"

definition request_empty_override :: request where
  "request_empty_override =
     \<lparr>form = [''url'' \<mapsto> [], ''keywords'' \<mapsto> []], headers = Map.empty, args = Map.empty\<rparr>"

definition request_override :: request where
  "request_override =
     \<lparr>form = [''url'' \<mapsto> '' https://other.example '', ''keywords'' \<mapsto> ''Concert, , fair ''],
      headers = Map.empty, args = Map.empty\<rparr>"

definition request_bad_token :: request where
  "request_bad_token =
     \<lparr>form = Map.empty, headers = [''X-Check-Token'' \<mapsto> ''guess''], args = Map.empty\<rparr>"

definition request_good_token :: request where
  "request_good_token =
     \<lparr>form = Map.empty, headers = [''X-Check-Token'' \<mapsto> ''t0ken''], args = Map.empty\<rparr>"

definition config_with_secrets :: pydict where
  "config_with_secrets =
     [''url'' \<mapsto> Str ''u'', ''keywords'' \<mapsto> StrList [''a'', ''b''],
      ''sender_email'' \<mapsto> Str ''old@example.com'',
      ''sender_password'' \<mapsto> Str ''leaked'',
      ''receiver_email'' \<mapsto> Str ''other@example.com'']"

section \<open>Properties\<close>

subsection \<open>Unfolding the definitions on concrete inputs\<close>

lemmas str_eval =
  isspace_def lower_char_def lower_def strip_def char_of_def bit_Suc_0_iff
  split_comma_def keyword_list_def

lemmas config_eval =
  load_config_def save_config_def safe_config_def merge_environ_def default_config_def
  environ_get_def dict_get_def py_or_def item_def secrets_def enter_def

lemmas check_eval =
  perform_check_def perform_check_try_def resolve_request_def effective_url_def
  effective_keywords_def validate_config_def error_result_def

lemmas scrape_eval =
  scrape_webpage_def scrape_webpage_try_def raise_for_status_def clean_whitespace_def
  splitlines_def split_spaces_def linebreak_def

lemmas example_eval =
  example_world_def example_environ_def example_config_def example_request_def

subsection \<open>Keyword matching\<close>

lemma py_in_iff_sublist: "py_in sub s \<longleftrightarrow> sublist sub s"
  by (induction s) (auto simp: sublist_Cons_right)

lemma check_keywords_loop_filter:
  "check_keywords_loop t ks acc =
     acc @ map strip (filter (\<lambda>k. strip k \<noteq> [] \<and> py_in (lower (strip k)) t) ks)"
  by (induction ks arbitrary: acc) simp_all

lemma check_keywords_empty_page: "check_keywords [] keywords = []"
  by (simp add: check_keywords_def check_keywords_loop_filter lower_def)

text \<open>
  Claim C1. For every text \<open>T\<close> and keyword list \<open>K\<close>, \<open>check_keywords T K\<close> is the list of
  the trimmed forms of exactly those entries of \<open>K\<close> whose trimmed form is not empty and,
  in lower case, occurs as a substring of the lower-case form of \<open>T\<close>; the entries keep
  the order they have in \<open>K\<close>. The substring relation is the library's \<open>sublist\<close>.
\<close>

theorem check_keywords_exact:
  "check_keywords T K =
     map strip (filter (\<lambda>k. strip k \<noteq> [] \<and> sublist (lower (strip k)) (lower T)) K)"
  by (simp add: check_keywords_def check_keywords_loop_filter py_in_iff_sublist)

theorem check_keywords_exact_witness:
  "check_keywords ''Big Sale Today'' ['' sale '', ''event'', ''  '', ''TODAY''] =
     [''sale'', ''TODAY'']
   \<and> map strip (filter (\<lambda>k. strip k \<noteq> [] \<and> sublist (lower (strip k)) (lower ''Big Sale Today''))
        ['' sale '', ''event'', ''  '', ''TODAY'']) = [''sale'', ''TODAY'']"
  using check_keywords_exact [of "''Big Sale Today''" "['' sale '', ''event'', ''  '', ''TODAY'']"]
  by (simp add: check_keywords_def str_eval)

subsection \<open>The calls a check makes\<close>

lemma send_email_try_trace:
  "send_email_try w a b c d e = (r, w') \<Longrightarrow> trace w' = trace w"
  by (auto simp: send_email_try_def Let_def split: option.splits sum.splits)

lemma send_email_returns:
  "\<exists>sent w'. send_email w a b c d e = (Inr sent, w') \<and> trace w' = trace w @ [Enter_send_email]"
proof (cases "send_email_try (enter Enter_send_email w) a b c d e")
  case (Pair r w')
  then have "trace w' = trace w @ [Enter_send_email]"
    using send_email_try_trace [OF Pair] by (simp add: enter_def)
  with Pair show ?thesis
    by (cases r) (auto simp: send_email_def)
qed

lemma validate_config_ok:
  "validate_config config url keywords = Inr None \<Longrightarrow>
     url \<noteq> [] \<and> keywords \<noteq> [] \<and>
     (\<exists>sender password receiver. secrets config = Inr (sender, password, receiver)
        \<and> truthy sender \<and> truthy password \<and> truthy receiver)"
  by (auto simp: validate_config_def split: if_splits sum.splits prod.splits)

lemma load_config_trace: "load_config w = (r, w') \<Longrightarrow> trace w' = trace w"
  by (auto simp: load_config_def save_config_def split: sum.splits exn.splits option.splits)

lemma resolve_request_trace: "resolve_request w req = (r, w') \<Longrightarrow> trace w' = trace w"
  by (auto simp: resolve_request_def split: sum.splits prod.splits dest: load_config_trace)

lemma scrape_webpage_trace:
  "scrape_webpage w url = (r, w') \<Longrightarrow> trace w' = trace w @ [Enter_scrape_webpage url]"
  by (auto simp: scrape_webpage_def enter_def split: sum.splits)

lemma match_and_notify_trace:
  assumes "match_and_notify w config url keywords page = (r, w')"
  shows "\<exists>rest. trace w' = trace w @ rest"
proof -
  let ?w1 = "enter (Enter_check_keywords page keywords) w"
  have w1: "trace ?w1 = trace w @ [Enter_check_keywords page keywords]"
    by (simp add: enter_def)
  show ?thesis
  proof (cases "check_keywords page keywords \<noteq> []")
    case False
    then have "w' = ?w1"
      using assms by (simp add: match_and_notify_def Let_def)
    with w1 show ?thesis by simp
  next
    case found: True
    show ?thesis
    proof (cases "secrets config")
      case (Inl e)
      then have "w' = ?w1"
        using assms found by (simp add: match_and_notify_def Let_def)
      with w1 show ?thesis by simp
    next
      case (Inr triple)
      obtain sender password receiver where triple: "triple = (sender, password, receiver)"
        by (cases triple)
      obtain sent w2 where
        send: "send_email ?w1 sender password receiver (email_subject url)
                 (email_body url (check_keywords page keywords) keywords (now ?w1)) = (Inr sent, w2)"
        and tr: "trace w2 = trace ?w1 @ [Enter_send_email]"
        using send_email_returns by blast
      have "w' = w2"
        using assms found Inr triple send
        by (simp add: match_and_notify_def Let_def split: if_splits)
      with tr w1 show ?thesis by simp
    qed
  qed
qed

lemma perform_check_try_trace:
  assumes "perform_check_try w req = (r, w')"
  shows "\<exists>rest. trace w' = trace w @ rest"
proof (cases "resolve_request w req")
  case (Pair a w1)
  have t1: "trace w1 = trace w"
    using resolve_request_trace [OF Pair] .
  show ?thesis
  proof (cases a)
    case (Inl e)
    with Pair assms have "w' = w1"
      by (simp add: perform_check_try_def)
    with t1 show ?thesis by simp
  next
    case (Inr triple)
    obtain config url kws where triple: "triple = (config, url, kws)"
      by (cases triple)
    show ?thesis
    proof (cases "validate_config config url kws = Inr None")
      case False
      then have "w' = w1"
        using Pair Inr triple assms
        by (auto simp: perform_check_try_def split: sum.splits option.splits)
      with t1 show ?thesis by simp
    next
      case True
      obtain b w2 where sc: "scrape_webpage w1 url = (b, w2)"
        by (cases "scrape_webpage w1 url")
      have t2: "trace w2 = trace w @ [Enter_scrape_webpage url]"
        using scrape_webpage_trace [OF sc] t1 by simp
      show ?thesis
      proof (cases "\<exists>page. b = Inr (Some page)")
        case False
        then have "w' = w2"
          using Pair Inr triple True sc assms
          by (auto simp: perform_check_try_def split: sum.splits option.splits)
        with t2 show ?thesis by simp
      next
        case True
        then obtain page where "b = Inr (Some page)" by blast
        then have "match_and_notify w2 config url kws page = (r, w')"
          using Pair Inr triple \<open>validate_config config url kws = Inr None\<close> sc assms
          by (simp add: perform_check_try_def)
        then obtain rest where "trace w' = trace w2 @ rest"
          using match_and_notify_trace by blast
        with t2 show ?thesis by simp
      qed
    qed
  qed
qed

lemma perform_check_trace:
  assumes "perform_check w req = (r, w')"
  shows "\<exists>rest. trace w' = trace w @ Enter_perform_check # rest"
proof -
  obtain a w1 where t: "perform_check_try (enter Enter_perform_check w) req = (a, w1)"
    by (cases "perform_check_try (enter Enter_perform_check w) req")
  then obtain rest where "trace w1 = trace (enter Enter_perform_check w) @ rest"
    using perform_check_try_trace by blast
  moreover have "w' = w1"
    using assms t by (cases a) (simp_all add: perform_check_def)
  ultimately show ?thesis
    by (simp add: enter_def)
qed

text \<open>The \<open>except\<close> clause of \<open>_perform_check\<close> turns every exception into a result.\<close>

lemma perform_check_returns: "\<exists>r w'. perform_check w req = (Inr r, w')"
  by (cases "perform_check_try (enter Enter_perform_check w) req")
     (auto simp: perform_check_def split: sum.splits)

subsection \<open>The example world, stage by stage\<close>

lemma example_resolve:
  assumes "environ w = example_environ" and "config_file w = Inr example_config"
  shows "resolve_request (enter Enter_perform_check w) example_request =
     (Inr (merge_environ w example_config, ''https://example.com'', [''sale'', ''event'']),
      enter Enter_perform_check w)"
  using assms
  by (simp add: resolve_request_def effective_url_def effective_keywords_def
        example_environ_def example_config_def example_request_def config_eval str_eval Let_def)

lemma example_secrets:
  assumes "environ w = example_environ"
  shows "secrets (merge_environ w example_config) =
     Inr (Str ''me@example.com'', Str ''hunter2'', Str ''you@example.com'')"
  using assms
  by (simp add: example_environ_def example_config_def config_eval Let_def)

lemma example_validate:
  assumes "environ w = example_environ"
  shows "validate_config (merge_environ w example_config)
       ''https://example.com'' [''sale'', ''event''] = Inr None"
  by (simp add: validate_config_def example_secrets [OF assms])

lemma example_scrape:
  assumes "http_get w = http_get example_world" and "soup_text w = soup_text example_world"
  shows "scrape_webpage w ''https://example.com'' =
      (Inr (Some ''Big Sale Today''), enter (Enter_scrape_webpage ''https://example.com'') w)"
  using assms
  by (simp add: scrape_webpage_def scrape_webpage_try_def raise_for_status_def
        clean_whitespace_def splitlines_def split_spaces_def linebreak_def
        example_world_def str_eval Let_def)

lemma example_match: "check_keywords ''Big Sale Today'' [''sale'', ''event''] = [''sale'']"
  by (simp add: check_keywords_def str_eval)

lemma example_send:
  assumes "mime_build w = (\<lambda>msg. None)" and "mime_as_string w = example_as_string"
    and "smtp_connect w = None" and "smtp_starttls w = None" and "smtp_quit w = None"
    and "smtp_sendmail w = (\<lambda>sender receiver text. None)"
    and "CHR 0x0A \<notin> set subject"
  shows "fst (send_email w sender password receiver subject body)
           = Inr (smtp_login w sender password = None)"
  using assms
  by (simp add: send_email_def send_email_try_def example_as_string_def enter_def Let_def
        split: option.splits)

lemma example_load:
  assumes "environ w = example_environ" and "config_file w = Inr example_config"
  shows "load_config w = (Inr (merge_environ w example_config), w)"
    and "merge_environ w example_config ''url'' = Some (Str ''https://example.com'')"
    and "merge_environ w example_config ''keywords'' = Some (StrList [''sale'', ''event''])"
  using assms
  by (simp_all add: example_environ_def example_config_def config_eval Let_def)

subsection \<open>Notification\<close>

text \<open>
  Claim C2. Take a call of \<open>_perform_check\<close> that gets as far as matching: the request is
  resolved, the configuration is complete, the page is fetched, and the list \<open>found\<close> of
  matched keywords is not empty. Then \<open>send_email\<close> is called, with the secrets of the
  configuration, right after \<open>check_keywords\<close>. If it returns true the result has status
  \<open>success\<close>, if it returns false the result has status \<open>warning\<close> and a message that says
  the e-mail failed; in both cases \<open>found_keywords\<close> is \<open>found\<close>.
\<close>

theorem perform_check_notifies:
  assumes "resolve_request (enter Enter_perform_check w) req = (Inr (config, url, keywords), w1)"
    and "validate_config config url keywords = Inr None"
    and "scrape_webpage w1 url = (Inr (Some page), w2)"
    and "check_keywords page keywords = found"
    and "found \<noteq> []"
  shows "\<exists>sender password receiver sent w3.
           secrets config = Inr (sender, password, receiver)
         \<and> send_email (enter (Enter_check_keywords page keywords) w2) sender password receiver
              (email_subject url) (email_body url found keywords (now w2)) = (Inr sent, w3)
         \<and> trace w3 = trace w2 @ [Enter_check_keywords page keywords, Enter_send_email]
         \<and> perform_check w req =
             (Inr \<lparr>status_tag = (if sent then ''success'' else ''warning''),
                   message = (if sent then ''Keywords found and email sent: ''
                              else ''Keywords found but email failed: '') @ join '', '' found,
                   found_keywords = Some found\<rparr>, w3)"
proof -
  from assms(2) obtain sender password receiver
    where sec: "secrets config = Inr (sender, password, receiver)"
    using validate_config_ok by blast
  let ?w = "enter (Enter_check_keywords page keywords) w2"
  obtain sent w3 where
    send: "send_email ?w sender password receiver
             (email_subject url) (email_body url found keywords (now w2)) = (Inr sent, w3)"
    and tr: "trace w3 = trace ?w @ [Enter_send_email]"
    using send_email_returns by blast
  have now: "now ?w = now w2"
    by (simp add: enter_def)
  have "match_and_notify w2 config url keywords page =
          (Inr \<lparr>status_tag = (if sent then ''success'' else ''warning''),
                message = (if sent then ''Keywords found and email sent: ''
                           else ''Keywords found but email failed: '') @ join '', '' found,
                found_keywords = Some found\<rparr>, w3)"
    using assms(4,5) sec send by (simp add: match_and_notify_def Let_def now)
  then have "perform_check w req =
          (Inr \<lparr>status_tag = (if sent then ''success'' else ''warning''),
                message = (if sent then ''Keywords found and email sent: ''
                           else ''Keywords found but email failed: '') @ join '', '' found,
                found_keywords = Some found\<rparr>, w3)"
    using assms(1,2,3) by (simp add: perform_check_def perform_check_try_def)
  moreover have "trace w3 = trace w2 @ [Enter_check_keywords page keywords, Enter_send_email]"
    using tr by (simp add: enter_def)
  ultimately show ?thesis
    using sec send by blast
qed


theorem perform_check_notifies_witness:
  "fst (perform_check example_world example_request) =
     Inr \<lparr>status_tag = ''success'', message = ''Keywords found and email sent: sale'',
           found_keywords = Some [''sale'']\<rparr>
   \<and> fst (perform_check world_mail_down example_request) =
     Inr \<lparr>status_tag = ''warning'', message = ''Keywords found but email failed: sale'',
           found_keywords = Some [''sale'']\<rparr>"
proof
  let ?w = example_world
  let ?w2 = "enter (Enter_scrape_webpage ''https://example.com'') (enter Enter_perform_check ?w)"
  have env: "environ ?w = example_environ"
    by (simp add: example_world_def)
  have h1: "resolve_request (enter Enter_perform_check ?w) example_request =
     (Inr (merge_environ ?w example_config, ''https://example.com'', [''sale'', ''event'']),
      enter Enter_perform_check ?w)"
    by (rule example_resolve) (simp_all add: example_world_def)
  have h3: "scrape_webpage (enter Enter_perform_check ?w) ''https://example.com'' =
      (Inr (Some ''Big Sale Today''), ?w2)"
    by (rule example_scrape) (simp_all add: enter_def)
  have h5: "[''sale''] \<noteq> ([] :: string list)"
    by simp
  from perform_check_notifies [OF h1 example_validate [OF env] h3 example_match h5]
  obtain sender password receiver sent w3 where
    sec: "secrets (merge_environ ?w example_config) = Inr (sender, password, receiver)"
    and send: "send_email (enter (Enter_check_keywords ''Big Sale Today'' [''sale'', ''event'']) ?w2)
        sender password receiver (email_subject ''https://example.com'')
        (email_body ''https://example.com'' [''sale''] [''sale'', ''event''] (now ?w2)) = (Inr sent, w3)"
    and res: "perform_check ?w example_request =
        (Inr \<lparr>status_tag = (if sent then ''success'' else ''warning''),
              message = (if sent then ''Keywords found and email sent: ''
                         else ''Keywords found but email failed: '') @ join '', '' [''sale''],
              found_keywords = Some [''sale'']\<rparr>, w3)"
    by blast
  have "fst (send_email (enter (Enter_check_keywords ''Big Sale Today'' [''sale'', ''event'']) ?w2)
        sender password receiver (email_subject ''https://example.com'')
        (email_body ''https://example.com'' [''sale''] [''sale'', ''event''] (now ?w2))) = Inr True"
    by (subst example_send) (simp_all add: enter_def example_world_def email_subject_def)
  with send have "sent" by simp
  with res show "fst (perform_check ?w example_request) =
     Inr \<lparr>status_tag = ''success'', message = ''Keywords found and email sent: sale'',
           found_keywords = Some [''sale'']\<rparr>"
    by simp
next
  let ?w = world_mail_down
  let ?w2 = "enter (Enter_scrape_webpage ''https://example.com'') (enter Enter_perform_check ?w)"
  have env: "environ ?w = example_environ"
    by (simp add: world_mail_down_def example_world_def)
  have h1: "resolve_request (enter Enter_perform_check ?w) example_request =
     (Inr (merge_environ ?w example_config, ''https://example.com'', [''sale'', ''event'']),
      enter Enter_perform_check ?w)"
    by (rule example_resolve) (simp_all add: world_mail_down_def example_world_def)
  have h3: "scrape_webpage (enter Enter_perform_check ?w) ''https://example.com'' =
      (Inr (Some ''Big Sale Today''), ?w2)"
    by (rule example_scrape) (simp_all add: enter_def world_mail_down_def)
  have h5: "[''sale''] \<noteq> ([] :: string list)"
    by simp
  from perform_check_notifies [OF h1 example_validate [OF env] h3 example_match h5]
  obtain sender password receiver sent w3 where
    sec: "secrets (merge_environ ?w example_config) = Inr (sender, password, receiver)"
    and send: "send_email (enter (Enter_check_keywords ''Big Sale Today'' [''sale'', ''event'']) ?w2)
        sender password receiver (email_subject ''https://example.com'')
        (email_body ''https://example.com'' [''sale''] [''sale'', ''event''] (now ?w2)) = (Inr sent, w3)"
    and res: "perform_check ?w example_request =
        (Inr \<lparr>status_tag = (if sent then ''success'' else ''warning''),
              message = (if sent then ''Keywords found and email sent: ''
                         else ''Keywords found but email failed: '') @ join '', '' [''sale''],
              found_keywords = Some [''sale'']\<rparr>, w3)"
    by blast
  have "fst (send_email (enter (Enter_check_keywords ''Big Sale Today'' [''sale'', ''event'']) ?w2)
        sender password receiver (email_subject ''https://example.com'')
        (email_body ''https://example.com'' [''sale''] [''sale'', ''event''] (now ?w2))) = Inr False"
    by (subst example_send)
       (simp_all add: enter_def world_mail_down_def example_world_def smtp_rejects_def
          email_subject_def)
  with send have "\<not> sent" by simp
  with res show "fst (perform_check ?w example_request) =
     Inr \<lparr>status_tag = ''warning'', message = ''Keywords found but email failed: sale'',
           found_keywords = Some [''sale'']\<rparr>"
    by simp
qed


subsection \<open>Validation and fetching\<close>

text \<open>
  Claim C3, as the code has it. When the url of a check is empty, \<open>_perform_check\<close> returns
  the status \<open>error\<close> and the message \<open>No URL configured\<close>, and has done nothing but load
  the configuration. The result has no key \<open>found_keywords\<close>: none of the \<open>error\<close> results
  of \<open>_perform_check\<close> has one, so the key is absent rather than an empty list.
\<close>

theorem perform_check_no_url:
  assumes "resolve_request (enter Enter_perform_check w) req = (Inr (config, [], keywords), w1)"
  shows "perform_check w req =
           (Inr \<lparr>status_tag = ''error'', message = ''No URL configured'',
                 found_keywords = None\<rparr>, w1)"
  using assms
  by (simp add: perform_check_def perform_check_try_def validate_config_def error_result_def)

lemma no_url_resolve:
  "resolve_request (enter Enter_perform_check world_no_url) example_request =
     (Inr (merge_environ world_no_url stored_no_url, [], [''sale'']),
      enter Enter_perform_check world_no_url)"
  by (simp add: world_no_url_def stored_no_url_def example_eval resolve_request_def
        effective_url_def effective_keywords_def config_eval str_eval Let_def)

theorem perform_check_no_url_witness:
  "perform_check world_no_url example_request =
     (Inr \<lparr>status_tag = ''error'', message = ''No URL configured'', found_keywords = None\<rparr>,
      enter Enter_perform_check world_no_url)"
  using no_url_resolve by (rule perform_check_no_url)

text \<open>
  With an empty url stored and no override, the url of the check is empty and the result
  has no \<open>found_keywords\<close>; it is not the result with the empty list.
\<close>

theorem no_url_found_keywords_counterexample:
  "fst (resolve_request (enter Enter_perform_check world_no_url) example_request) =
     Inr (merge_environ world_no_url stored_no_url, [], [''sale''])
   \<and> fst (perform_check world_no_url example_request) =
     Inr \<lparr>status_tag = ''error'', message = ''No URL configured'', found_keywords = None\<rparr>
   \<and> fst (perform_check world_no_url example_request) \<noteq>
     Inr \<lparr>status_tag = ''error'', message = ''No URL configured'', found_keywords = Some []\<rparr>"
  by (simp add: no_url_resolve perform_check_def perform_check_try_def validate_config_def
        error_result_def)

text \<open>
  Claim C4, as the code has it. Take a call of \<open>_perform_check\<close> that reaches the fetch:
  the request is resolved and the configuration is complete. If \<open>scrape_webpage\<close> returns
  \<open>None\<close>, the result has status \<open>error\<close> and a message that ends with the url, and the
  calls made are those of \<open>_perform_check\<close> and \<open>scrape_webpage\<close> only: neither
  \<open>check_keywords\<close> nor \<open>send_email\<close> is entered. An empty text is not \<open>None\<close>: with it
  \<open>check_keywords\<close> is called, and the result has status \<open>info\<close> and the empty list of
  found keywords.
\<close>

theorem perform_check_fetch:
  assumes "resolve_request (enter Enter_perform_check w) req = (Inr (config, url, keywords), w1)"
    and "validate_config config url keywords = Inr None"
    and "scrape_webpage w1 url = (Inr fetched, w2)"
  shows "(fetched = None \<longrightarrow>
            perform_check w req =
              (Inr \<lparr>status_tag = ''error'', message = ''Failed to scrape webpage: '' @ url,
                    found_keywords = None\<rparr>, w2)
          \<and> trace w2 = trace w @ [Enter_perform_check, Enter_scrape_webpage url])
       \<and> (fetched = Some [] \<longrightarrow>
            perform_check w req =
              (Inr \<lparr>status_tag = ''info'', message = ''No keywords found on the webpage'',
                    found_keywords = Some []\<rparr>, enter (Enter_check_keywords [] keywords) w2))"
proof (intro conjI impI)
  assume "fetched = None"
  then show "perform_check w req =
      (Inr \<lparr>status_tag = ''error'', message = ''Failed to scrape webpage: '' @ url,
            found_keywords = None\<rparr>, w2)"
    using assms by (simp add: perform_check_def perform_check_try_def error_result_def)
next
  assume "fetched = None"
  have "trace w1 = trace w @ [Enter_perform_check]"
    using resolve_request_trace [OF assms(1)] by (simp add: enter_def)
  then show "trace w2 = trace w @ [Enter_perform_check, Enter_scrape_webpage url]"
    using scrape_webpage_trace [OF assms(3)] by simp
next
  assume empty: "fetched = Some []"
  have "check_keywords [] keywords = []"
    by (simp add: check_keywords_empty_page)
  then have "match_and_notify w2 config url keywords [] =
      (Inr \<lparr>status_tag = ''info'', message = ''No keywords found on the webpage'',
            found_keywords = Some []\<rparr>, enter (Enter_check_keywords [] keywords) w2)"
    by (simp add: match_and_notify_def Let_def)
  then show "perform_check w req =
      (Inr \<lparr>status_tag = ''info'', message = ''No keywords found on the webpage'',
            found_keywords = Some []\<rparr>, enter (Enter_check_keywords [] keywords) w2)"
    using assms empty by (simp add: perform_check_def perform_check_try_def)
qed


theorem perform_check_fetch_witness:
  "perform_check world_fetch_fails example_request =
     (Inr \<lparr>status_tag = ''error'',
           message = ''Failed to scrape webpage: https://example.com'',
           found_keywords = None\<rparr>,
      enter (Enter_scrape_webpage ''https://example.com'')
        (enter Enter_perform_check world_fetch_fails))
   \<and> trace (enter (Enter_scrape_webpage ''https://example.com'')
               (enter Enter_perform_check world_fetch_fails))
       = trace world_fetch_fails @ [Enter_perform_check, Enter_scrape_webpage ''https://example.com'']
   \<and> fst (perform_check world_empty_page example_request) =
       Inr \<lparr>status_tag = ''info'', message = ''No keywords found on the webpage'',
             found_keywords = Some []\<rparr>"
proof -
  let ?u = "''https://example.com''"
  have env1: "environ world_fetch_fails = example_environ"
    by (simp add: world_fetch_fails_def example_world_def)
  have r1: "resolve_request (enter Enter_perform_check world_fetch_fails) example_request =
     (Inr (merge_environ world_fetch_fails example_config, ?u, [''sale'', ''event'']),
      enter Enter_perform_check world_fetch_fails)"
    by (rule example_resolve) (simp_all add: world_fetch_fails_def example_world_def)
  have s1: "scrape_webpage (enter Enter_perform_check world_fetch_fails) ?u =
      (Inr None, enter (Enter_scrape_webpage ?u) (enter Enter_perform_check world_fetch_fails))"
    by (simp add: scrape_webpage_def scrape_webpage_try_def world_fetch_fails_def enter_def)
  have env2: "environ world_empty_page = example_environ"
    by (simp add: world_empty_page_def example_world_def)
  have r2: "resolve_request (enter Enter_perform_check world_empty_page) example_request =
     (Inr (merge_environ world_empty_page example_config, ?u, [''sale'', ''event'']),
      enter Enter_perform_check world_empty_page)"
    by (rule example_resolve) (simp_all add: world_empty_page_def example_world_def)
  have s2: "scrape_webpage (enter Enter_perform_check world_empty_page) ?u =
      (Inr (Some []), enter (Enter_scrape_webpage ?u) (enter Enter_perform_check world_empty_page))"
    by (simp add: scrape_eval world_empty_page_def enter_def str_eval)
  show ?thesis
    using perform_check_fetch [OF r1 example_validate [OF env1] s1]
      perform_check_fetch [OF r2 example_validate [OF env2] s2]
    by simp
qed

text \<open>
  A page whose text is empty: the fetch succeeds with the empty text, \<open>check_keywords\<close> is
  called and the result has status \<open>info\<close>, not \<open>error\<close>.
\<close>

theorem empty_page_counterexample:
  "fst (scrape_webpage (enter Enter_perform_check world_empty_page) ''https://example.com'') =
     Inr (Some [])
   \<and> fst (perform_check world_empty_page example_request) =
       Inr \<lparr>status_tag = ''info'', message = ''No keywords found on the webpage'',
             found_keywords = Some []\<rparr>
   \<and> Enter_check_keywords [] [''sale'', ''event'']
       \<in> set (trace (snd (perform_check world_empty_page example_request)))"
  by (simp add: world_empty_page_def example_eval check_eval config_eval scrape_eval
        match_and_notify_def check_keywords_def str_eval Let_def)

subsection \<open>The url and the keywords of a check\<close>

text \<open>
  Claim C5, as the code has it. Let the loaded configuration hold the url \<open>u\<close> and the
  keyword list \<open>ks\<close>. The url of the check is the form field \<open>url\<close> when the request has
  one, empty or not, and \<open>u\<close> otherwise, trimmed. The keywords of the check come from the
  form field \<open>keywords\<close> when the request has one, empty or not, and from the entries of
  \<open>ks\<close> joined by commas otherwise: the string is split at the commas, the pieces are
  trimmed and the empty ones dropped.
\<close>

theorem effective_request:
  assumes "load_config w = (Inr config, w1)"
    and "config ''url'' = Some (Str u)"
    and "config ''keywords'' = Some (StrList ks)"
  shows "resolve_request w req =
           (Inr (config,
                 strip (case form req ''url'' of Some v \<Rightarrow> v | None \<Rightarrow> u),
                 keyword_list (case form req ''keywords'' of Some v \<Rightarrow> v
                               | None \<Rightarrow> join '','' ks)), w1)"
  using assms
  by (simp add: resolve_request_def effective_url_def effective_keywords_def item_def
      split: option.splits)

theorem effective_request_witness:
  "resolve_request example_world request_override =
     (Inr (merge_environ example_world example_config,
           ''https://other.example'', [''Concert'', ''fair'']), example_world)
   \<and> resolve_request example_world example_request =
     (Inr (merge_environ example_world example_config,
           ''https://example.com'', [''sale'', ''event'']), example_world)"
proof -
  have env: "environ example_world = example_environ"
    and stored: "config_file example_world = Inr example_config"
    by (simp_all add: example_world_def)
  show ?thesis
    using effective_request [OF example_load [OF env stored], of request_override]
      effective_request [OF example_load [OF env stored], of example_request]
    by (simp add: request_override_def example_request_def str_eval)
qed

text \<open>
  A request whose form fields \<open>url\<close> and \<open>keywords\<close> are empty strings: the url and the
  keywords of the check are empty, though the configuration holds a url and two keywords.
\<close>

theorem empty_override_counterexample:
  "fst (resolve_request example_world request_empty_override) =
     Inr (merge_environ example_world example_config, [], [])
   \<and> merge_environ example_world example_config ''url'' = Some (Str ''https://example.com'')
   \<and> merge_environ example_world example_config ''keywords'' =
       Some (StrList [''sale'', ''event''])"
  by (simp add: request_empty_override_def example_eval resolve_request_def effective_url_def
        effective_keywords_def config_eval str_eval Let_def)

subsection \<open>The stored configuration\<close>

text \<open>
  Claim C6. Let a configuration hold a url \<open>u\<close> that is not empty and a keyword list \<open>ks\<close>
  that is not empty, such as \<open>u\<close> and \<open>[a, b]\<close>, and let the file be writable. Then
  \<open>save_config\<close> followed by \<open>load_config\<close> gives a configuration with the url \<open>u\<close>, the
  keywords \<open>ks\<close> and the three secrets as the environment has them, and with no other key.
\<close>

theorem save_load_roundtrip:
  assumes "write_error w = None"
    and "config ''url'' = Some (Str u)" and "u \<noteq> []"
    and "config ''keywords'' = Some (StrList ks)" and "ks \<noteq> []"
  shows "\<exists>w1 loaded.
           save_config w config = (Inr (), w1)
         \<and> load_config w1 = (Inr loaded, w1)
         \<and> loaded ''url'' = Some (Str u)
         \<and> loaded ''keywords'' = Some (StrList ks)
         \<and> loaded ''sender_email'' = Some (Str (environ_get w ''SENDER_EMAIL'' []))
         \<and> loaded ''sender_password'' = Some (Str (environ_get w ''SENDER_EMAIL_PASSWORD'' []))
         \<and> loaded ''receiver_email'' = Some (Str (environ_get w ''RECEIVER_EMAIL'' []))
         \<and> dom loaded = {''url'', ''keywords'', ''sender_email'', ''sender_password'',
                          ''receiver_email''}"
  using assms
  by (simp add: save_config_def load_config_def safe_config_def merge_environ_def dict_get_def
      py_or_def environ_get_def Let_def insert_commute)

theorem save_load_roundtrip_witness:
  "fst (save_config example_world config_with_secrets) = Inr ()
   \<and> fst (load_config (snd (save_config example_world config_with_secrets))) =
       Inr (merge_environ example_world (safe_config config_with_secrets))
   \<and> merge_environ example_world (safe_config config_with_secrets) ''url'' = Some (Str ''u'')
   \<and> merge_environ example_world (safe_config config_with_secrets) ''keywords'' =
       Some (StrList [''a'', ''b''])
   \<and> merge_environ example_world (safe_config config_with_secrets) ''sender_password'' =
       Some (Str ''hunter2'')"
proof -
  let ?stored = "safe_config config_with_secrets"
  let ?w1 = "example_world\<lparr>config_file := Inr ?stored\<rparr>"
  have hyps: "write_error example_world = None"
    "config_with_secrets ''url'' = Some (Str ''u'')" "''u'' \<noteq> []"
    "config_with_secrets ''keywords'' = Some (StrList [''a'', ''b''])"
    "[''a'', ''b''] \<noteq> ([] :: string list)"
    by (simp_all add: example_world_def config_with_secrets_def)
  have save: "save_config example_world config_with_secrets = (Inr (), ?w1)"
    by (simp add: save_config_def hyps(1))
  have load: "load_config ?w1 = (Inr (merge_environ example_world ?stored), ?w1)"
    by (simp add: load_config_def merge_environ_def environ_get_def)
  have env: "environ_get example_world ''SENDER_EMAIL_PASSWORD'' [] = ''hunter2''"
    by (simp add: environ_get_def example_world_def example_environ_def)
  show ?thesis
    using save_load_roundtrip [OF hyps] by (simp add: save load env)
qed

text \<open>
  Claim C7. Whatever configuration \<open>save_config\<close> is given, secrets included, the record it
  stores has the two keys \<open>url\<close> and \<open>keywords\<close> and no other, so none of the secrets; when
  the write fails the file is as it was. Whatever the file holds, the secrets of the
  configuration \<open>load_config\<close> returns are those of the environment.
\<close>

theorem secrets_never_persisted:
  "(\<forall>w1. save_config w config = (Inr (), w1) \<longrightarrow>
       (\<exists>stored. config_file w1 = Inr stored \<and> dom stored = {''url'', ''keywords''}
          \<and> stored ''sender_email'' = None \<and> stored ''sender_password'' = None
          \<and> stored ''receiver_email'' = None))
   \<and> (\<forall>e w1. save_config w config = (Inl e, w1) \<longrightarrow> config_file w1 = config_file w)
   \<and> (\<forall>loaded w1. load_config w = (Inr loaded, w1) \<longrightarrow>
         loaded ''sender_email'' = Some (Str (environ_get w ''SENDER_EMAIL'' []))
       \<and> loaded ''sender_password'' = Some (Str (environ_get w ''SENDER_EMAIL_PASSWORD'' []))
       \<and> loaded ''receiver_email'' = Some (Str (environ_get w ''RECEIVER_EMAIL'' [])))"
  by (auto simp: save_config_def load_config_def safe_config_def merge_environ_def
      environ_get_def Let_def split: option.splits sum.splits exn.splits)

theorem secrets_never_persisted_witness:
  "config_file (snd (save_config example_world config_with_secrets)) =
     Inr (safe_config config_with_secrets)
   \<and> dom (safe_config config_with_secrets) = {''url'', ''keywords''}
   \<and> safe_config config_with_secrets ''sender_password'' = None
   \<and> fst (load_config example_world) = Inr (merge_environ example_world example_config)
   \<and> merge_environ example_world example_config ''sender_email'' =
       Some (Str ''me@example.com'')
   \<and> merge_environ example_world example_config ''sender_password'' = Some (Str ''hunter2'')
   \<and> merge_environ example_world example_config ''receiver_email'' =
       Some (Str ''you@example.com'')"
proof -
  let ?w1 = "example_world\<lparr>config_file := Inr (safe_config config_with_secrets)\<rparr>"
  have save: "save_config example_world config_with_secrets = (Inr (), ?w1)"
    by (simp add: save_config_def example_world_def)
  have load: "load_config example_world =
      (Inr (merge_environ example_world example_config), example_world)"
    by (simp add: load_config_def example_world_def)
  have env: "environ_get example_world ''SENDER_EMAIL'' [] = ''me@example.com''"
    "environ_get example_world ''SENDER_EMAIL_PASSWORD'' [] = ''hunter2''"
    "environ_get example_world ''RECEIVER_EMAIL'' [] = ''you@example.com''"
    by (simp_all add: environ_get_def example_world_def example_environ_def)
  show ?thesis
    using secrets_never_persisted [of example_world config_with_secrets] save load env
    by auto
qed

subsection \<open>The token of \<open>check\<close>\<close>

text \<open>
  Claim C8. When \<open>CHECK_TOKEN\<close> is unset or empty, \<open>check\<close> answers 500 and leaves the world
  as it was. When it is set and the caller's token is missing, empty or another string,
  \<open>check\<close> answers 401 and leaves the world as it was. \<open>_perform_check\<close> is entered during
  the call if and only if \<open>CHECK_TOKEN\<close> is set and the caller's token is equal to it.
\<close>

theorem check_token_gate:
  "(falsy (environ w ''CHECK_TOKEN'') \<longrightarrow>
      check w req = (Inr (500, error_result ''CHECK_TOKEN not configured''), w))
 \<and> (\<not> falsy (environ w ''CHECK_TOKEN'')
      \<and> (falsy (provided_token req) \<or> provided_token req \<noteq> environ w ''CHECK_TOKEN'') \<longrightarrow>
      check w req = (Inr (401, error_result ''Unauthorized - invalid or missing token''), w))
 \<and> (Enter_perform_check \<in> set (drop (length (trace w)) (trace (snd (check w req)))) \<longleftrightarrow>
      \<not> falsy (environ w ''CHECK_TOKEN'') \<and> provided_token req = environ w ''CHECK_TOKEN'')"
proof (intro conjI impI)
  show "Enter_perform_check \<in> set (drop (length (trace w)) (trace (snd (check w req)))) \<longleftrightarrow>
      \<not> falsy (environ w ''CHECK_TOKEN'') \<and> provided_token req = environ w ''CHECK_TOKEN''"
  proof (cases "\<not> falsy (environ w ''CHECK_TOKEN'') \<and> provided_token req = environ w ''CHECK_TOKEN''")
    case True
    obtain r w' where pc: "perform_check w req = (r, w')"
      by (cases "perform_check w req")
    then obtain rest where "trace w' = trace w @ Enter_perform_check # rest"
      using perform_check_trace by blast
    moreover have "snd (check w req) = w'"
      using True pc by (simp add: check_def Let_def split: sum.splits)
    ultimately show ?thesis
      using True by simp
  next
    case False
    then have "snd (check w req) = w"
      by (auto simp: check_def Let_def)
    with False show ?thesis
      by simp
  qed
qed (simp_all add: check_def Let_def)

theorem check_token_gate_witness:
  "check world_no_token request_good_token =
     (Inr (500, error_result ''CHECK_TOKEN not configured''), world_no_token)
   \<and> check example_world request_bad_token =
     (Inr (401, error_result ''Unauthorized - invalid or missing token''), example_world)
   \<and> check example_world example_request =
     (Inr (401, error_result ''Unauthorized - invalid or missing token''), example_world)
   \<and> Enter_perform_check
       \<notin> set (drop (length (trace example_world))
                 (trace (snd (check example_world request_bad_token))))
   \<and> Enter_perform_check
       \<in> set (drop (length (trace example_world))
                 (trace (snd (check example_world request_good_token))))"
proof -
  have token: "environ example_world ''CHECK_TOKEN'' = Some ''t0ken''"
    "environ world_no_token ''CHECK_TOKEN'' = None"
    by (simp_all add: world_no_token_def example_world_def example_environ_def)
  have provided: "provided_token request_good_token = Some ''t0ken''"
    "provided_token request_bad_token = Some ''guess''"
    "provided_token example_request = None"
    by (simp_all add: provided_token_def request_good_token_def request_bad_token_def
          example_request_def)
  show ?thesis
    using check_token_gate [of world_no_token request_good_token]
      check_token_gate [of example_world request_bad_token]
      check_token_gate [of example_world example_request]
      check_token_gate [of example_world request_good_token]
    by (simp add: token provided falsy_def)
qed

subsection \<open>Sending\<close>

text \<open>
  Claim C9. \<open>send_email\<close> returns a truth value on every input and never an exception. The
  value is true exactly when no statement of the \<open>try\<close> raises: the message is built and
  turned into text, and every step of the SMTP session goes through. When any of them
  raises, it is false. When it is true, the relay has accepted the text of the message.
\<close>

theorem send_email_never_raises:
  "\<exists>sent w'.
      send_email w sender password receiver subject body = (Inr sent, w')
    \<and> sent =
        (mime_build w \<lparr>mail_from = sender, mail_to = receiver,
                        mail_subject = subject, mail_body = body\<rparr> = None
         \<and> smtp_connect w = None \<and> smtp_starttls w = None
         \<and> smtp_login w sender password = None
         \<and> (\<exists>text. mime_as_string w \<lparr>mail_from = sender, mail_to = receiver,
                                       mail_subject = subject, mail_body = body\<rparr> = Inr text
                \<and> smtp_sendmail w sender receiver text = None)
         \<and> smtp_quit w = None)
    \<and> (sent \<longrightarrow>
         (\<exists>text. mime_as_string w \<lparr>mail_from = sender, mail_to = receiver,
                                    mail_subject = subject, mail_body = body\<rparr> = Inr text
            \<and> outbox w' = outbox w @ [(sender, receiver, text)]))"
  by (auto simp: send_email_def send_email_try_def enter_def Let_def
      split: option.splits sum.splits)

theorem send_email_never_raises_witness:
  "fst (send_email example_world (Str ''me@example.com'') (Str ''hunter2'')
          (Str ''you@example.com'') ''subject'' ''body'') = Inr True
   \<and> outbox (snd (send_email example_world (Str ''me@example.com'') (Str ''hunter2'')
          (Str ''you@example.com'') ''subject'' ''body'')) =
       [(Str ''me@example.com'', Str ''you@example.com'',
         ''Subject: subject'' @ newline @ newline @ ''body'')]
   \<and> fst (send_email world_mail_down (Str ''me@example.com'') (Str ''hunter2'')
          (Str ''you@example.com'') ''subject'' ''body'') = Inr False
   \<and> fst (send_email example_world (Str ''me@example.com'') (Str ''hunter2'')
          (Str ''you@example.com'') (''a'' @ newline @ ''Bcc: x@y.z'') ''body'') = Inr False
   \<and> outbox (snd (send_email example_world (Str ''me@example.com'') (Str ''hunter2'')
          (Str ''you@example.com'') (''a'' @ newline @ ''Bcc: x@y.z'') ''body'')) = []"
  using send_email_never_raises [of example_world "Str ''me@example.com''" "Str ''hunter2''"
      "Str ''you@example.com''" "''subject''" "''body''"]
    send_email_never_raises [of world_mail_down "Str ''me@example.com''" "Str ''hunter2''"
      "Str ''you@example.com''" "''subject''" "''body''"]
    send_email_never_raises [of example_world "Str ''me@example.com''" "Str ''hunter2''"
      "Str ''you@example.com''" "''a'' @ newline @ ''Bcc: x@y.z''" "''body''"]
  by (auto simp: example_world_def world_mail_down_def smtp_rejects_def example_as_string_def
        newline_def send_email_def send_email_try_def enter_def)

subsection \<open>What \<open>status\<close> shows\<close>

text \<open>
  Claim C10. The answer of \<open>status\<close> depends on the sender's password only through
  whether it is empty: two environments that differ in the value of
  \<open>SENDER_EMAIL_PASSWORD\<close> only, both values empty or both not, get the same answer. So
  the answer does not carry the password.
\<close>

theorem status_hides_password:
  assumes "(p1 = []) = (p2 = [])"
  shows "fst (status (w\<lparr>environ := (environ w)(''SENDER_EMAIL_PASSWORD'' \<mapsto> p1)\<rparr>))
       = fst (status (w\<lparr>environ := (environ w)(''SENDER_EMAIL_PASSWORD'' \<mapsto> p2)\<rparr>))"
  using assms
  by (auto simp: status_def load_config_def save_config_def merge_environ_def secrets_def
      item_def environ_get_def default_config_def dict_get_def py_or_def Let_def
      split: sum.splits exn.splits option.splits prod.splits)

theorem status_hides_password_witness:
  "fst (status (example_world\<lparr>environ :=
          (environ example_world)(''SENDER_EMAIL_PASSWORD'' \<mapsto> ''hunter2'')\<rparr>))
   = fst (status (example_world\<lparr>environ :=
          (environ example_world)(''SENDER_EMAIL_PASSWORD'' \<mapsto> ''correct horse'')\<rparr>))"
  using status_hides_password [of "''hunter2''" "''correct horse''" example_world]
  by simp


end
